theory Spec2Isabelle
  imports Main "HOL-Library.Sublist"
begin

section \<open>Values of the Python run time\<close>

text \<open>
  The two entry points \<^verbatim>\<open>src/common/black_remove.py\<close> (images and videos) and
  \<^verbatim>\<open>src/common/video_black_remove.py\<close> (videos only) are embedded function by function.
  Exceptions are values of \<open>exn\<close>; a function that can raise returns \<open>exn + 'a\<close> or an
  \<open>exn option\<close> next to the state it leaves behind. \<open>Raised m\<close> stands for any exception
  that a collaborator (detector, OpenCV, shutil, the json and os modules) raises.
\<close>

datatype exn =
    ValueError | FileNotFoundError | KeyError | TypeError | AttributeError
  | UnboundLocalError | Raised string

text \<open>A \<^verbatim>\<open>pathlib.Path\<close> is the list of its parts; an absolute path starts with the part \<open>''/''\<close>.\<close>

type_synonym path = "string list"

text \<open>A detected rectangle: \<open>(x, y, w, h)\<close> for videos, \<open>(x1, y1, x2, y2)\<close> for images.\<close>

type_synonym rect = "int \<times> int \<times> int \<times> int"

text \<open>The document that \<^verbatim>\<open>json.load\<close> returns (numbers are integers here).\<close>

datatype json =
    JNull | JBool bool | JNum int | JStr string | JArr "json list"
  | JObj "(string \<times> json) list"

text \<open>\<^verbatim>\<open>d[k]\<close>: KeyError on a dict without the key, TypeError on anything that is not a dict.\<close>

definition subscript :: "json \<Rightarrow> string \<Rightarrow> exn + json" where
  "subscript d k =
     (case d of
        JObj kvs \<Rightarrow> (case map_of kvs k of None \<Rightarrow> Inl KeyError | Some v \<Rightarrow> Inr v)
      | _ \<Rightarrow> Inl TypeError)"

text \<open>\<^verbatim>\<open>d.get(k, default)\<close>: only a dict has the method.\<close>

definition get :: "json \<Rightarrow> string \<Rightarrow> json \<Rightarrow> exn + json" where
  "get d k dflt =
     (case d of
        JObj kvs \<Rightarrow> Inr (case map_of kvs k of None \<Rightarrow> dflt | Some v \<Rightarrow> v)
      | _ \<Rightarrow> Inl AttributeError)"

text \<open>Truth value of a configuration value, as \<^verbatim>\<open>not crop_enabled\<close> reads it.\<close>

definition truthy :: "json \<Rightarrow> bool" where
  "truthy v =
     (case v of
        JNull \<Rightarrow> False | JBool b \<Rightarrow> b | JNum n \<Rightarrow> n \<noteq> 0 | JStr s \<Rightarrow> s \<noteq> []
      | JArr xs \<Rightarrow> xs \<noteq> [] | JObj kvs \<Rightarrow> kvs \<noteq> [])"

section \<open>Paths\<close>

fun split_on :: "char \<Rightarrow> string \<Rightarrow> string list" where
  "split_on c [] = [[]]"
| "split_on c (x # xs) =
     (if x = c then [] # split_on c xs
      else (case split_on c xs of [] \<Rightarrow> [[x]] | w # ws \<Rightarrow> (x # w) # ws))"

text \<open>
  The parts of a POSIX path string: split at slashes, empty and \<open>''.''\<close> segments dropped,
  a leading slash kept as the root part.
\<close>

definition parts :: "string \<Rightarrow> path" where
  "parts s =
     (if s \<noteq> [] \<and> hd s = CHR ''/'' then [''/''] else [])
     @ filter (\<lambda>w. w \<noteq> [] \<and> w \<noteq> ''.'') (split_on (CHR ''/'') s)"

text \<open>\<^verbatim>\<open>Path(x)\<close>: a TypeError unless the argument is a string.\<close>

definition Path :: "json \<Rightarrow> exn + path" where
  "Path v = (case v of JStr s \<Rightarrow> Inr (parts s) | _ \<Rightarrow> Inl TypeError)"

fun join_slash :: "string list \<Rightarrow> string" where
  "join_slash [] = []"
| "join_slash [w] = w"
| "join_slash (w # v # ws) = w @ ''/'' @ join_slash (v # ws)"

text \<open>\<^verbatim>\<open>str(path)\<close>.\<close>

definition str_path :: "path \<Rightarrow> string" where
  "str_path p =
     (if p = [] then ''.''
      else if hd p = ''/'' then ''/'' @ join_slash (tl p)
      else join_slash p)"

text \<open>\<^verbatim>\<open>p.relative_to(root)\<close>: a ValueError when \<open>p\<close> is not below \<open>root\<close>.\<close>

definition relative_to :: "path \<Rightarrow> path \<Rightarrow> exn + path" where
  "relative_to p root = (if prefix root p then Inr (drop (length root) p) else Inl ValueError)"

text \<open>\<^verbatim>\<open>p.name\<close> and \<^verbatim>\<open>p.parent\<close> of a relative path.\<close>

definition path_name :: "path \<Rightarrow> string" where
  "path_name p = (if p = [] then [] else last p)"

definition path_parent :: "path \<Rightarrow> path" where
  "path_parent p = butlast p"

text \<open>\<^verbatim>\<open>s.rfind(c)\<close>: the highest index of \<open>c\<close>, or \<open>-1\<close>.\<close>

definition rfind :: "char \<Rightarrow> string \<Rightarrow> int" where
  "rfind c s = fst (foldl (\<lambda>(r, i) x. (if x = c then i else r, i + 1)) (- 1, 0) s)"

text \<open>
  \<^verbatim>\<open>p.suffix\<close> and \<^verbatim>\<open>p.stem\<close> as pathlib computes them from the name:
  \<^verbatim>\<open>i = name.rfind('.')\<close>, and the name is split at \<open>i\<close> when \<^verbatim>\<open>0 < i < len(name) - 1\<close>.
\<close>

definition path_suffix :: "path \<Rightarrow> string" where
  "path_suffix p =
     (let name = path_name p; i = rfind (CHR ''.'') name
      in if 0 < i \<and> i < int (length name) - 1 then drop (nat i) name else [])"

definition path_stem :: "path \<Rightarrow> string" where
  "path_stem p =
     (let name = path_name p; i = rfind (CHR ''.'') name
      in if 0 < i \<and> i < int (length name) - 1 then take (nat i) name else name)"

text \<open>\<^verbatim>\<open>s.lower()\<close> on ASCII letters; every other character is left as it is.\<close>

definition lower_char :: "char \<Rightarrow> char" where
  "lower_char c =
     (case map_of (zip ''ABCDEFGHIJKLMNOPQRSTUVWXYZ'' ''abcdefghijklmnopqrstuvwxyz'') c of
        None \<Rightarrow> c | Some d \<Rightarrow> d)"

definition lower :: "string \<Rightarrow> string" where
  "lower s = map lower_char s"

definition video_extensions :: "string list" where
  "video_extensions = [''.mp4'', ''.avi'', ''.flv'', ''.mov'', ''.mkv'']"

definition image_extensions :: "string list" where
  "image_extensions = [''.png'', ''.jpg'', ''.jpeg'', ''.bmp'', ''.gif'', ''.tiff'']"

text \<open>
  The output file of both batch functions:
  \<^verbatim>\<open>output_dir / rel_path.parent / f"{rel_path.stem}_noblack{rel_path.suffix}"\<close>.
\<close>

definition output_file_of :: "path \<Rightarrow> path \<Rightarrow> path" where
  "output_file_of output_dir rel_path =
     output_dir @ path_parent rel_path @ [path_stem rel_path @ ''_noblack'' @ path_suffix rel_path]"

section \<open>The file system and the collaborators\<close>

text \<open>
  The file system holds the regular files and the directories that exist. The order of
  the two lists is the order in which a directory scan meets them.
\<close>

record fsys =
  files :: "path list"
  dirs :: "path list"

definition path_exists :: "fsys \<Rightarrow> path \<Rightarrow> bool" where
  "path_exists fs p = (p \<in> set (files fs) \<or> p \<in> set (dirs fs))"

definition is_file :: "fsys \<Rightarrow> path \<Rightarrow> bool" where
  "is_file fs p = (p \<in> set (files fs))"

text \<open>
  \<^verbatim>\<open>root.rglob('*')\<close>: everything strictly below \<open>root\<close>; pathlib yields nothing when
  \<open>root\<close> is not a directory. The scan is taken when the loop starts.
\<close>

definition rglob :: "fsys \<Rightarrow> path \<Rightarrow> path list" where
  "rglob fs root =
     (if root \<in> set (dirs fs) then filter (strict_prefix root) (dirs fs @ files fs) else [])"

definition add_file :: "path \<Rightarrow> fsys \<Rightarrow> fsys" where
  "add_file p fs = (if p \<in> set (files fs) then fs else fs\<lparr>files := files fs @ [p]\<rparr>)"

text \<open>\<^verbatim>\<open>mkdir(parents=True, exist_ok=True)\<close> creates the directory and its missing ancestors.\<close>

definition add_dirs :: "path \<Rightarrow> fsys \<Rightarrow> fsys" where
  "add_dirs d fs = fs\<lparr>dirs := dirs fs @ filter (\<lambda>q. q \<notin> set (dirs fs)) (prefixes d)\<rparr>"

datatype remover = VideoRemover | IMGBlackRemover | BlackRemover

text \<open>How \<^verbatim>\<open>subprocess.run(command, check=True, ...)\<close> ends.\<close>

datatype proc_result =
    Exit0
  | CalledProcessError string
  | ExecutableMissing
  | OtherFailure exn

text \<open>
  The collaborators whose code is outside the two files: the detectors, OpenCV, shutil,
  ffmpeg, the operating system. Each is a function of its arguments.
\<close>

record env =
  remove_black :: "remover \<Rightarrow> path \<Rightarrow> json option \<Rightarrow> exn + rect"
  start :: "path \<Rightarrow> exn + rect"
  frame_width :: "path \<Rightarrow> int"
  frame_height :: "path \<Rightarrow> int"
  imread_shape :: "path \<Rightarrow> (int \<times> int) option"
  st_size :: "path \<Rightarrow> int"
  mkdir_error :: "path \<Rightarrow> exn option"
  copy2_error :: "path \<Rightarrow> path \<Rightarrow> exn option"
  imwrite_error :: "path \<Rightarrow> exn option"
  ffmpeg :: "path \<Rightarrow> path \<Rightarrow> rect \<Rightarrow> proc_result"
  load_json :: "string \<Rightarrow> exn + json"
  write_error :: "string \<Rightarrow> exn option"
  environment :: "string \<times> string"

text \<open>The result document of \<^verbatim>\<open>main\<close>; \<open>error\<close> holds the exception whose text is stored.\<close>

record job_result =
  success :: bool
  video_path :: "string option"
  environment_info :: "(string \<times> string) option"
  error :: "exn option"

text \<open>
  What a run does, in order: the lines it prints and the calls it makes to the
  collaborators. A \<open>Print_\<close> event carries the values its message is formatted with.
\<close>

datatype event =
    Print_skip_unsupported path
  | Print_skip_existing path
  | Print_copied path path
  | Print_failed path exn
  | Print_video_cropped path path
  | Print_video_crop_failed path string
  | Print_ffmpeg_missing
  | Print_image_cropped path path
  | Print_skip_damaged path
  | Print_batch_done
  | Print_run_failed exn
  | Print_write_failed exn
  | Call_detect remover path
  | Call_probe path
  | Call_mkdir path
  | Call_copy2 path path
  | Call_ffmpeg path path rect
  | Call_imwrite path rect
  | Call_write_result string job_result

section \<open>Crop executors\<close>

text \<open>
  The \<^verbatim>\<open>try: subprocess.run(...) except CalledProcessError ... except FileNotFoundError\<close>
  block, the same text in both files: a non-zero exit and a missing executable are
  printed and swallowed; anything else propagates.
\<close>

definition run_ffmpeg ::
  "env \<Rightarrow> fsys \<Rightarrow> path \<Rightarrow> path \<Rightarrow> rect \<Rightarrow> exn option \<times> fsys \<times> event list" where
  "run_ffmpeg env fs input_path output_path rect =
     (case ffmpeg env input_path output_path rect of
        Exit0 \<Rightarrow>
          (None, add_file output_path fs,
           [Call_ffmpeg input_path output_path rect, Print_video_cropped input_path output_path])
      | CalledProcessError err \<Rightarrow>
          (None, fs,
           [Call_ffmpeg input_path output_path rect, Print_video_crop_failed input_path err])
      | ExecutableMissing \<Rightarrow>
          (None, fs, [Call_ffmpeg input_path output_path rect, Print_ffmpeg_missing])
      | OtherFailure e \<Rightarrow> (Some e, fs, [Call_ffmpeg input_path output_path rect]))"

text \<open>\<^verbatim>\<open>crop_video\<close> of black_remove.py: the rectangle is validated first.\<close>

definition crop_video ::
  "env \<Rightarrow> fsys \<Rightarrow> path \<Rightarrow> path \<Rightarrow> rect \<Rightarrow> exn option \<times> fsys \<times> event list" where
  "crop_video env fs input_path output_path rect =
     (case rect of (x, y, w, h) \<Rightarrow>
        if w \<le> 0 \<or> h \<le> 0 then (Some ValueError, fs, [])
        else run_ffmpeg env fs input_path output_path rect)"

text \<open>\<^verbatim>\<open>crop_video\<close> of video_black_remove.py: no validation of its own.\<close>

definition vbr_crop_video ::
  "env \<Rightarrow> fsys \<Rightarrow> path \<Rightarrow> path \<Rightarrow> rect \<Rightarrow> exn option \<times> fsys \<times> event list" where
  "vbr_crop_video env fs input_path output_path rect =
     run_ffmpeg env fs input_path output_path rect"

definition mkdir_parents :: "env \<Rightarrow> fsys \<Rightarrow> path \<Rightarrow> exn option \<times> fsys \<times> event list" where
  "mkdir_parents env fs d =
     (case mkdir_error env d of
        Some e \<Rightarrow> (Some e, fs, [Call_mkdir d])
      | None \<Rightarrow> (None, add_dirs d fs, [Call_mkdir d]))"

text \<open>
  \<^verbatim>\<open>crop_image\<close>. \<^verbatim>\<open>os.makedirs(os.path.dirname(output_path))\<close> raises on the empty
  directory name of a path with a single part.
\<close>

definition crop_image ::
  "env \<Rightarrow> fsys \<Rightarrow> path \<Rightarrow> path \<Rightarrow> rect \<Rightarrow> exn option \<times> fsys \<times> event list" where
  "crop_image env fs input_path output_path rect =
     (case rect of (x1, y1, x2, y2) \<Rightarrow>
        let w = x2 - x1; h = y2 - y1 in
        if w \<le> 0 \<or> h \<le> 0 then (Some ValueError, fs, [])
        else if imread_shape env input_path = None then (Some FileNotFoundError, fs, [])
        else if path_parent output_path = [] then (Some FileNotFoundError, fs, [])
        else
          (case mkdir_parents env fs (path_parent output_path) of
             (Some e, fs1, ev1) \<Rightarrow> (Some e, fs1, ev1)
           | (None, fs1, ev1) \<Rightarrow>
               (case imwrite_error env output_path of
                  Some e \<Rightarrow> (Some e, fs1, ev1 @ [Call_imwrite output_path rect])
                | None \<Rightarrow>
                    (None, add_file output_path fs1,
                     ev1 @ [Call_imwrite output_path rect,
                            Print_image_cropped input_path output_path]))))"

section \<open>Strategy selection and detection\<close>

definition get_remover :: "string \<Rightarrow> json \<Rightarrow> exn + remover" where
  "get_remover media_type algorithm =
     (if media_type = ''video'' then
        (if algorithm = JStr ''dynamic'' then Inr VideoRemover
         else if algorithm = JStr ''static'' then Inr IMGBlackRemover
         else Inl ValueError)
      else if media_type = ''image'' then Inr BlackRemover
      else Inl ValueError)"

record batch_args =
  input_dir :: path
  output_dir :: path
  crop_enabled :: json
  video_algorithm :: json
  max_frames :: json

text \<open>
  Lines 132 to 148 of black_remove.py: the detector call, the probe of the source's own
  dimensions and the \<^verbatim>\<open>has_black\<close> flag. \<^verbatim>\<open>img.shape\<close> of an unreadable image
  is an AttributeError.
\<close>

definition detect_media ::
  "env \<Rightarrow> batch_args \<Rightarrow> string \<Rightarrow> remover \<Rightarrow> path \<Rightarrow> (exn + rect \<times> bool) \<times> event list" where
  "detect_media env a media_type rmv input_path =
     (if media_type = ''video'' then
        (case (if video_algorithm a = JStr ''static''
               then remove_black env rmv input_path (Some (max_frames a))
               else remove_black env rmv input_path None) of
           Inl e \<Rightarrow> (Inl e, [Call_detect rmv input_path])
         | Inr (x, y, w, h) \<Rightarrow>
             let original_w = frame_width env input_path;
                 original_h = frame_height env input_path
             in (Inr ((x, y, w, h), \<not> (w = original_w \<and> h = original_h)),
                 [Call_detect rmv input_path, Call_probe input_path]))
      else
        (case start env input_path of
           Inl e \<Rightarrow> (Inl e, [Call_detect rmv input_path])
         | Inr (x1, y1, x2, y2) \<Rightarrow>
             (case imread_shape env input_path of
                None \<Rightarrow> (Inl AttributeError, [Call_detect rmv input_path, Call_probe input_path])
              | Some (original_h, original_w) \<Rightarrow>
                  (Inr ((x1, y1, x2, y2),
                        \<not> (x1 = 0 \<and> y1 = 0 \<and> x2 = original_w \<and> y2 = original_h)),
                   [Call_detect rmv input_path, Call_probe input_path]))))"

section \<open>The batch of black_remove.py\<close>

text \<open>Lines 152 to 154 (and 75 to 77 of the video-only file): create the parent, copy, print.\<close>

definition copy_branch ::
  "env \<Rightarrow> fsys \<Rightarrow> path \<Rightarrow> path \<Rightarrow> exn option \<times> fsys \<times> event list" where
  "copy_branch env fs input_path output_file =
     (case mkdir_parents env fs (path_parent output_file) of
        (Some e, fs1, ev1) \<Rightarrow> (Some e, fs1, ev1)
      | (None, fs1, ev1) \<Rightarrow>
          (case copy2_error env input_path output_file of
             Some e \<Rightarrow> (Some e, fs1, ev1 @ [Call_copy2 input_path output_file])
           | None \<Rightarrow>
               (None, add_file output_file fs1,
                ev1 @ [Call_copy2 input_path output_file,
                       Print_copied input_path output_file])))"

text \<open>The body of the \<^verbatim>\<open>try\<close> of lines 127 to 159.\<close>

definition try_body ::
  "env \<Rightarrow> batch_args \<Rightarrow> fsys \<Rightarrow> string \<Rightarrow> path \<Rightarrow> path \<Rightarrow> exn option \<times> fsys \<times> event list" where
  "try_body env a fs media_type input_path output_file =
     (case get_remover media_type (video_algorithm a) of
        Inl e \<Rightarrow> (Some e, fs, [])
      | Inr rmv \<Rightarrow>
          (case detect_media env a media_type rmv input_path of
             (Inl e, evs) \<Rightarrow> (Some e, fs, evs)
           | (Inr (rect, has_black), evs) \<Rightarrow>
               (case (if \<not> truthy (crop_enabled a) \<or> \<not> has_black
                      then copy_branch env fs input_path output_file
                      else if media_type = ''video''
                      then crop_video env fs input_path output_file rect
                      else crop_image env fs input_path output_file rect) of
                  (r, fs', evs') \<Rightarrow> (r, fs', evs @ evs'))))"

text \<open>
  One turn of the loop of \<^verbatim>\<open>batch_process_media\<close> (lines 105 to 163). The
  \<^verbatim>\<open>except Exception\<close> turns an exception of the \<^verbatim>\<open>try\<close> body into a printed line.
\<close>

definition process_media_file ::
  "env \<Rightarrow> batch_args \<Rightarrow> fsys \<Rightarrow> path \<Rightarrow> exn option \<times> fsys \<times> event list" where
  "process_media_file env a fs input_path =
     (if \<not> is_file fs input_path then (None, fs, [])
      else
        let sfx = lower (path_suffix input_path) in
        if sfx \<notin> set video_extensions \<and> sfx \<notin> set image_extensions
        then (None, fs, [Print_skip_unsupported input_path])
        else
          let media_type = (if sfx \<in> set video_extensions then ''video'' else ''image'') in
          (case relative_to input_path (input_dir a) of
             Inl e \<Rightarrow> (Some e, fs, [])
           | Inr rel_path \<Rightarrow>
               let output_file = output_file_of (output_dir a) rel_path in
               if path_exists fs output_file then (None, fs, [Print_skip_existing input_path])
               else
                 (case try_body env a fs media_type input_path output_file of
                    (Some e, fs', evs) \<Rightarrow> (None, fs', evs @ [Print_failed input_path e])
                  | (None, fs', evs) \<Rightarrow> (None, fs', evs))))"

text \<open>A \<^verbatim>\<open>for\<close> loop over the scanned paths: an exception that leaves the body ends it.\<close>

fun for_each ::
  "(fsys \<Rightarrow> path \<Rightarrow> exn option \<times> fsys \<times> event list) \<Rightarrow> path list \<Rightarrow> fsys
     \<Rightarrow> exn option \<times> fsys \<times> event list" where
  "for_each body [] fs = (None, fs, [])"
| "for_each body (p # ps) fs =
     (case body fs p of
        (Some e, fs', evs) \<Rightarrow> (Some e, fs', evs)
      | (None, fs', evs) \<Rightarrow>
          (case for_each body ps fs' of (r, fs'', evs') \<Rightarrow> (r, fs'', evs @ evs')))"

definition batch_process_media ::
  "env \<Rightarrow> fsys \<Rightarrow> json \<Rightarrow> json \<Rightarrow> json \<Rightarrow> json \<Rightarrow> json \<Rightarrow> (exn + string) \<times> fsys \<times> event list" where
  "batch_process_media env fs input_dir_arg output_dir_arg crop video_alg frames =
     (case Path input_dir_arg of
        Inl e \<Rightarrow> (Inl e, fs, [])
      | Inr in_dir \<Rightarrow>
          (case Path output_dir_arg of
             Inl e \<Rightarrow> (Inl e, fs, [])
           | Inr out_dir \<Rightarrow>
               (case mkdir_parents env fs out_dir of
                  (Some e, fs1, ev1) \<Rightarrow> (Inl e, fs1, ev1)
                | (None, fs1, ev1) \<Rightarrow>
                    let a = \<lparr>input_dir = in_dir, output_dir = out_dir, crop_enabled = crop,
                             video_algorithm = video_alg, max_frames = frames\<rparr> in
                    (case for_each (process_media_file env a) (rglob fs1 in_dir) fs1 of
                       (Some e, fs2, ev2) \<Rightarrow> (Inl e, fs2, ev1 @ ev2)
                     | (None, fs2, ev2) \<Rightarrow> (Inr (str_path out_dir), fs2, ev1 @ ev2)))))"

section \<open>The batch of video_black_remove.py\<close>

text \<open>
  One turn of the loop of \<^verbatim>\<open>batch_crop_videos\<close> (lines 56 to 80). Nothing is caught
  here. The copy test compares the rectangle's width and height with
  \<^verbatim>\<open>input_path.stat().st_size\<close>.
\<close>

definition process_video_file ::
  "env \<Rightarrow> path \<Rightarrow> path \<Rightarrow> fsys \<Rightarrow> path \<Rightarrow> exn option \<times> fsys \<times> event list" where
  "process_video_file env in_dir out_dir fs input_path =
     (if lower (path_suffix input_path) \<in> set video_extensions \<and> is_file fs input_path then
        (case relative_to input_path in_dir of
           Inl e \<Rightarrow> (Some e, fs, [])
         | Inr rel_path \<Rightarrow>
             let output_file = output_file_of out_dir rel_path in
             if path_exists fs output_file then (None, fs, [Print_skip_existing input_path])
             else
               (case remove_black env VideoRemover input_path None of
                  Inl e \<Rightarrow> (Some e, fs, [Call_detect VideoRemover input_path])
                | Inr (x, y, w, h) \<Rightarrow>
                    if w \<le> 0 \<or> h \<le> 0
                    then (None, fs, [Call_detect VideoRemover input_path,
                                     Print_skip_damaged input_path])
                    else if w = st_size env input_path \<and> h = st_size env input_path then
                      (case copy_branch env fs input_path output_file of
                         (r, fs', evs) \<Rightarrow> (r, fs', Call_detect VideoRemover input_path # evs))
                    else
                      (case mkdir_parents env fs (path_parent output_file) of
                         (Some e, fs1, ev1) \<Rightarrow>
                           (Some e, fs1, Call_detect VideoRemover input_path # ev1)
                       | (None, fs1, ev1) \<Rightarrow>
                           (case vbr_crop_video env fs1 input_path output_file (x, y, w, h) of
                              (r, fs2, ev2) \<Rightarrow>
                                (r, fs2, Call_detect VideoRemover input_path # ev1 @ ev2)))))
      else (None, fs, []))"

definition batch_crop_videos ::
  "env \<Rightarrow> fsys \<Rightarrow> json \<Rightarrow> json \<Rightarrow> (exn + string) \<times> fsys \<times> event list" where
  "batch_crop_videos env fs input_dir_arg output_dir_arg =
     (case Path input_dir_arg of
        Inl e \<Rightarrow> (Inl e, fs, [])
      | Inr in_dir \<Rightarrow>
          (case Path output_dir_arg of
             Inl e \<Rightarrow> (Inl e, fs, [])
           | Inr out_dir \<Rightarrow>
               (case mkdir_parents env fs out_dir of
                  (Some e, fs1, ev1) \<Rightarrow> (Inl e, fs1, ev1)
                | (None, fs1, ev1) \<Rightarrow>
                    (case for_each (process_video_file env in_dir out_dir) (rglob fs1 in_dir) fs1 of
                       (Some e, fs2, ev2) \<Rightarrow> (Inl e, fs2, ev1 @ ev2)
                     | (None, fs2, ev2) \<Rightarrow> (Inr (str_path out_dir), fs2, ev1 @ ev2)))))"

section \<open>The two entry points\<close>

definition initial_result :: job_result where
  "initial_result = \<lparr>success = False, video_path = None, environment_info = None, error = None\<rparr>"

definition and_then :: "exn + 'a \<Rightarrow> ('a \<Rightarrow> exn + 'b) \<Rightarrow> exn + 'b" where
  "and_then r f = (case r of Inl e \<Rightarrow> Inl e | Inr v \<Rightarrow> f v)"

text \<open>
  Lines 191 to 197 of black_remove.py: the input root and the four settings with their
  defaults, read in this order.
\<close>

definition read_config :: "json \<Rightarrow> exn + json \<times> json \<times> json \<times> json \<times> json" where
  "read_config input_data =
     and_then (subscript input_data ''params'') (\<lambda>params.
     and_then (get params ''video_path'' (JObj [])) (\<lambda>vp.
     and_then (get vp ''video_path'' JNull) (\<lambda>media_path.
     and_then (subscript input_data ''config'') (\<lambda>config.
     and_then (get config ''output_path'' (JStr ''output_noblack'')) (\<lambda>output_path.
     and_then (get config ''crop_enabled'' (JBool True)) (\<lambda>crop.
     and_then (get config ''video_algorithm'' (JStr ''dynamic'')) (\<lambda>video_alg.
     and_then (get config ''max_frames'' (JNum 500)) (\<lambda>frames.
       Inr (media_path, output_path, crop, video_alg, frames)))))))))"

text \<open>\<^verbatim>\<open>os.path.exists\<close> of a path string.\<close>

definition os_path_exists :: "fsys \<Rightarrow> string \<Rightarrow> bool" where
  "os_path_exists fs s = (s \<noteq> [] \<and> path_exists fs (parts s))"

text \<open>
  The \<^verbatim>\<open>try\<close> block of \<^verbatim>\<open>main\<close> (lines 177 to 209). The first component is the binding
  of \<^verbatim>\<open>output_file\<close>, which the \<^verbatim>\<open>finally\<close> block reads: it is unbound when the
  argument count is wrong.
\<close>

definition main_try ::
  "env \<Rightarrow> fsys \<Rightarrow> string list \<Rightarrow> string option \<times> exn option \<times> job_result \<times> fsys \<times> event list" where
  "main_try env fs argv =
     (if length argv \<noteq> 3 then (None, Some ValueError, initial_result, fs, [])
      else
        let input_file = argv ! 1; output_file = argv ! 2 in
        if \<not> os_path_exists fs input_file
        then (Some output_file, Some FileNotFoundError, initial_result, fs, [])
        else
          (case and_then (load_json env input_file) read_config of
             Inl e \<Rightarrow> (Some output_file, Some e, initial_result, fs, [])
           | Inr (media_path, output_path, crop, video_alg, frames) \<Rightarrow>
               (case batch_process_media env fs media_path output_path crop video_alg frames of
                  (Inl e, fs', evs) \<Rightarrow> (Some output_file, Some e, initial_result, fs', evs)
                | (Inr out, fs', evs) \<Rightarrow>
                    (Some output_file, None,
                     \<lparr>success = True, video_path = Some out,
                      environment_info = Some (environment env), error = None\<rparr>,
                     fs', evs @ [Print_batch_done]))))"

text \<open>
  The \<^verbatim>\<open>finally\<close> block and the last line, the same text in both files: a failed write
  (or the unbound \<^verbatim>\<open>output_file\<close>) exits with 1, otherwise the exit status follows
  \<^verbatim>\<open>result["success"]\<close>.
\<close>

definition write_and_exit ::
  "env \<Rightarrow> string option \<Rightarrow> job_result \<Rightarrow> fsys \<Rightarrow> int \<times> fsys \<times> event list" where
  "write_and_exit env output_file result fs =
     (case output_file of
        None \<Rightarrow> (1, fs, [Print_write_failed UnboundLocalError])
      | Some f \<Rightarrow>
          (case write_error env f of
             Some e \<Rightarrow> (1, fs, [Print_write_failed e])
           | None \<Rightarrow>
               (if success result then 0 else 1, add_file (parts f) fs,
                [Call_write_result f result])))"

text \<open>The \<^verbatim>\<open>except Exception\<close> clause stores the exception and prints it.\<close>

definition finish ::
  "env \<Rightarrow> string option \<times> exn option \<times> job_result \<times> fsys \<times> event list
     \<Rightarrow> int \<times> job_result \<times> fsys \<times> event list" where
  "finish env t =
     (case t of (output_file, exc, result, fs1, ev1) \<Rightarrow>
        let result' = (case exc of None \<Rightarrow> result | Some e \<Rightarrow> result\<lparr>error := Some e\<rparr>);
            ev_exc = (case exc of None \<Rightarrow> [] | Some e \<Rightarrow> [Print_run_failed e])
        in (case write_and_exit env output_file result' fs1 of
              (code, fs2, ev2) \<Rightarrow> (code, result', fs2, ev1 @ ev_exc @ ev2)))"

text \<open>\<^verbatim>\<open>main\<close> of black_remove.py: exit status, result document, file system, events.\<close>

definition main :: "env \<Rightarrow> fsys \<Rightarrow> string list \<Rightarrow> int \<times> job_result \<times> fsys \<times> event list" where
  "main env fs argv = finish env (main_try env fs argv)"

text \<open>
  Lines 110 to 113 of video_black_remove.py: \<^verbatim>\<open>.get('video_path')\<close> has no default
  here, and an empty or missing input root is a KeyError.
\<close>

definition vbr_read_config :: "json \<Rightarrow> exn + json \<times> json" where
  "vbr_read_config input_data =
     and_then (subscript input_data ''params'') (\<lambda>params.
     and_then (get params ''video_path'' JNull) (\<lambda>vp.
     and_then (get vp ''video_path'' JNull) (\<lambda>video_path.
     and_then (subscript input_data ''config'') (\<lambda>config.
     and_then (get config ''output_path'' (JStr ''output_noblack'')) (\<lambda>output_path.
       if \<not> truthy video_path then Inl KeyError else Inr (video_path, output_path))))))"

definition vbr_main_try ::
  "env \<Rightarrow> fsys \<Rightarrow> string list \<Rightarrow> string option \<times> exn option \<times> job_result \<times> fsys \<times> event list" where
  "vbr_main_try env fs argv =
     (if length argv \<noteq> 3 then (None, Some ValueError, initial_result, fs, [])
      else
        let input_file = argv ! 1; output_file = argv ! 2 in
        if \<not> os_path_exists fs input_file
        then (Some output_file, Some FileNotFoundError, initial_result, fs, [])
        else
          (case and_then (load_json env input_file) vbr_read_config of
             Inl e \<Rightarrow> (Some output_file, Some e, initial_result, fs, [])
           | Inr (video_path_arg, output_path) \<Rightarrow>
               (case batch_crop_videos env fs video_path_arg output_path of
                  (Inl e, fs', evs) \<Rightarrow> (Some output_file, Some e, initial_result, fs', evs)
                | (Inr out, fs', evs) \<Rightarrow>
                    (Some output_file, None,
                     \<lparr>success = True, video_path = Some out,
                      environment_info = Some (environment env), error = None\<rparr>,
                     fs', evs @ [Print_batch_done]))))"

definition vbr_main :: "env \<Rightarrow> fsys \<Rightarrow> string list \<Rightarrow> int \<times> job_result \<times> fsys \<times> event list" where
  "vbr_main env fs argv = finish env (vbr_main_try env fs argv)"

section \<open>Properties: vocabulary and example inputs\<close>


text \<open>
  An example run: the configuration names the input root \<open>clips\<close> and the output root
  \<open>out\<close>; the tree holds one 1920x800 video whose content rectangle is
  \<open>(0, 140, 1920, 520)\<close> and one 640x480 image without bars; every collaborator succeeds.
\<close>

definition example_config :: json where
  "example_config =
     JObj [(''params'', JObj [(''video_path'', JObj [(''video_path'', JStr ''clips'')])]),
           (''config'', JObj [(''output_path'', JStr ''out'')])]"

definition example_env :: env where
  "example_env =
     \<lparr>remove_black = (\<lambda>r p m. Inr (0, 140, 1920, 520)),
      start = (\<lambda>p. Inr (0, 0, 640, 480)),
      frame_width = (\<lambda>p. 1920), frame_height = (\<lambda>p. 800),
      imread_shape = (\<lambda>p. Some (480, 640)),
      st_size = (\<lambda>p. 5000000),
      mkdir_error = (\<lambda>p. None), copy2_error = (\<lambda>p q. None),
      imwrite_error = (\<lambda>p. None),
      ffmpeg = (\<lambda>p q r. Exit0),
      load_json = (\<lambda>s. Inr example_config),
      write_error = (\<lambda>s. None),
      environment = (''python3'', ''None'')\<rparr>"

definition example_fs :: fsys where
  "example_fs =
     \<lparr>files = [[''cfg.json''], [''clips'', ''a'', ''b.mp4''], [''clips'', ''c.png'']],
      dirs = [[], [''clips''], [''clips'', ''a'']]\<rparr>"

definition example_argv :: "string list" where
  "example_argv = [''black_remove.py'', ''cfg.json'', ''result.json'']"




text \<open>The arguments of the example batch: static strategy with ten sampled frames.\<close>

definition example_args :: batch_args where
  "example_args =
     \<lparr>input_dir = parts ''clips'', output_dir = parts ''out'', crop_enabled = JBool True,
      video_algorithm = JStr ''static'', max_frames = JNum 10\<rparr>"


text \<open>A tree with two videos; the detector raises on the first one it meets.\<close>

definition two_videos_fs :: fsys where
  "two_videos_fs =
     \<lparr>files = [[''cfg.json''], [''clips'', ''a'', ''b.mp4''], [''clips'', ''d.mp4'']],
      dirs = [[], [''clips''], [''clips'', ''a'']]\<rparr>"

definition corrupt_env :: env where
  "corrupt_env =
     example_env\<lparr>remove_black :=
       (\<lambda>r p m. if p = [''clips'', ''a'', ''b.mp4''] then Inl (Raised ''corrupt'')
                 else Inr (0, 140, 1920, 520))\<rparr>"

text \<open>
  \<open>missing_root fs root\<close>: \<open>root\<close> does not exist, and so no file lies below it.
\<close>

definition missing_root :: "fsys \<Rightarrow> path \<Rightarrow> bool" where
  "missing_root fs root = (\<not> path_exists fs root \<and> (\<forall>p \<in> set (files fs). \<not> prefix root p))"

text \<open>Width and height of a detected rectangle in its normal form are not both positive.\<close>

definition degenerate :: "string \<Rightarrow> rect \<Rightarrow> bool" where
  "degenerate media_type r =
     (case r of (a, b, c, d) \<Rightarrow>
        if media_type = ''video'' then c \<le> 0 \<or> d \<le> 0 else c - a \<le> 0 \<or> d - b \<le> 0)"

text \<open>The calls that execute a crop.\<close>

definition is_crop_call :: "event \<Rightarrow> bool" where
  "is_crop_call e =
     (case e of Call_ffmpeg s d r \<Rightarrow> True | Call_imwrite d r \<Rightarrow> True | _ \<Rightarrow> False)"

text \<open>A tree in which the configured input root \<open>clips\<close> does not exist.\<close>

definition no_clips_fs :: fsys where
  "no_clips_fs = \<lparr>files = [[''cfg.json'']], dirs = [[]]\<rparr>"

text \<open>A configuration that asks for a video algorithm the selector does not know.\<close>

definition fast_args :: batch_args where
  "fast_args = example_args\<lparr>video_algorithm := JStr ''fast''\<rparr>"

text \<open>A detector that finds nothing: the rectangle \<open>(0, 0, 0, 0)\<close>.\<close>

definition empty_rect_env :: env where
  "empty_rect_env = example_env\<lparr>remove_black := (\<lambda>r p m. Inr (0, 0, 0, 0))\<rparr>"

text \<open>A video without bars: the detector returns the full 1920x800 frame.\<close>

definition full_frame_env :: env where
  "full_frame_env = example_env\<lparr>remove_black := (\<lambda>r p m. Inr (0, 0, 1920, 800))\<rparr>"

text \<open>The two lines that report a skipped file.\<close>

definition is_skip_line :: "event \<Rightarrow> bool" where
  "is_skip_line e =
     (case e of Print_skip_existing p \<Rightarrow> True | Print_skip_unsupported p \<Rightarrow> True | _ \<Rightarrow> False)"

text \<open>
  \<open>targets_in_place fs in_dir out_dir\<close>: every image or video file found below the input
  root already has its target, as after a run that completed every file.
\<close>

definition targets_in_place :: "fsys \<Rightarrow> path \<Rightarrow> path \<Rightarrow> bool" where
  "targets_in_place fs in_dir out_dir =
     list_all
       (\<lambda>p. \<not> is_file fs p
            \<or> (lower (path_suffix p) \<notin> set video_extensions
               \<and> lower (path_suffix p) \<notin> set image_extensions)
            \<or> path_exists fs (output_file_of out_dir (drop (length in_dir) p)))
       (rglob fs in_dir)"

text \<open>The file system that the example batch leaves behind.\<close>

definition after_first_run :: fsys where
  "after_first_run =
     fst (snd (batch_process_media example_env example_fs (JStr ''clips'') (JStr ''out'')
       (JBool True) (JStr ''static'') (JNum 10)))"

section \<open>Unfolding rules for concrete runs\<close>

lemmas path_defs =
  parts_def Path_def str_path_def relative_to_def path_name_def path_parent_def rfind_def
  path_suffix_def path_stem_def lower_char_def lower_def video_extensions_def
  image_extensions_def output_file_of_def

lemmas fs_defs =
  path_exists_def is_file_def rglob_def add_file_def add_dirs_def os_path_exists_def

lemmas batch_defs =
  run_ffmpeg_def crop_video_def vbr_crop_video_def mkdir_parents_def crop_image_def
  get_remover_def detect_media_def copy_branch_def try_body_def process_media_file_def
  batch_process_media_def process_video_file_def batch_crop_videos_def truthy_def

lemmas main_defs =
  initial_result_def and_then_def read_config_def main_try_def write_and_exit_def finish_def
  main_def vbr_read_config_def vbr_main_try_def vbr_main_def subscript_def get_def

lemmas example_defs = example_config_def example_env_def example_fs_def example_argv_def

section \<open>Exit status and result document\<close>

lemma main_try_shape:
  assumes "main_try env fs argv = (out, exc, result, fs1, ev1)"
  shows "out = (if length argv = 3 then Some (argv ! 2) else None)"
    and "exc = None \<longleftrightarrow> success result"
    and "success result \<Longrightarrow> length argv = 3"
  using assms
  by (auto simp: main_try_def initial_result_def Let_def split: if_splits sum.splits prod.splits)

lemma vbr_main_try_shape:
  assumes "vbr_main_try env fs argv = (out, exc, result, fs1, ev1)"
  shows "out = (if length argv = 3 then Some (argv ! 2) else None)"
    and "exc = None \<longleftrightarrow> success result"
    and "success result \<Longrightarrow> length argv = 3"
  using assms
  by (auto simp: vbr_main_try_def initial_result_def Let_def split: if_splits sum.splits prod.splits)

lemma finish_exit:
  assumes "out = (if length argv = 3 then Some (argv ! 2) else None)"
      and "exc = None \<longleftrightarrow> success result"
      and "success result \<Longrightarrow> length argv = 3"
      and "finish env (out, exc, result, fs1, ev1) = (code, result', fs2, evs)"
  shows "(code = 0 \<longleftrightarrow> success result' \<and> length argv = 3 \<and> write_error env (argv ! 2) = None)
       \<and> (code = 0 \<or> code = 1)
       \<and> (length argv = 3 \<and> write_error env (argv ! 2) = None \<longrightarrow>
           last evs = Call_write_result (argv ! 2) result' \<and> is_file fs2 (parts (argv ! 2)))"
  using assms
  by (auto simp: finish_def write_and_exit_def Let_def add_file_def is_file_def
           split: if_splits option.splits prod.splits)

text \<open>
  Claim C9. For \<^verbatim>\<open>main\<close> of either file: the exit status is 0 exactly when the result
  document says \<open>success\<close> and the document could be written (three arguments, no error
  from the write); it is 1 otherwise, so a failed write gives 1 even after a successful
  batch. Whenever the write can succeed, the document is the last thing the run does, on
  the success path and on the failure path alike.
\<close>

theorem exit_status_follows_success:
  assumes "run = main \<or> run = vbr_main"
      and "run env fs argv = (code, result, fs', evs)"
  shows "(code = 0 \<longleftrightarrow> success result \<and> length argv = 3 \<and> write_error env (argv ! 2) = None)
       \<and> (code = 0 \<or> code = 1)
       \<and> (length argv = 3 \<and> write_error env (argv ! 2) = None \<longrightarrow>
           last evs = Call_write_result (argv ! 2) result \<and> is_file fs' (parts (argv ! 2)))"
proof -
  from assms(1) show ?thesis
  proof
    assume r: "run = main"
    obtain out exc res fs1 ev1 where t: "main_try env fs argv = (out, exc, res, fs1, ev1)"
      by (metis prod_cases5)
    from assms(2) r t have f: "finish env (out, exc, res, fs1, ev1) = (code, result, fs', evs)"
      by (simp add: main_def)
    show ?thesis
      by (rule finish_exit [OF main_try_shape(1) [OF t] main_try_shape(2) [OF t] main_try_shape(3) [OF t] f])
  next
    assume r: "run = vbr_main"
    obtain out exc res fs1 ev1 where t: "vbr_main_try env fs argv = (out, exc, res, fs1, ev1)"
      by (metis prod_cases5)
    from assms(2) r t have f: "finish env (out, exc, res, fs1, ev1) = (code, result, fs', evs)"
      by (simp add: vbr_main_def)
    show ?thesis
      by (rule finish_exit [OF vbr_main_try_shape(1) [OF t] vbr_main_try_shape(2) [OF t] vbr_main_try_shape(3) [OF t] f])
  qed
qed

lemma example_main_run:
  "main example_env example_fs example_argv =
     (0,
      \<lparr>success = True, video_path = Some ''out'',
       environment_info = Some (''python3'', ''None''), error = None\<rparr>,
      \<lparr>files = [[''cfg.json''], [''clips'', ''a'', ''b.mp4''], [''clips'', ''c.png''],
                [''out'', ''a'', ''b_noblack.mp4''], [''out'', ''c_noblack.png''],
                [''result.json'']],
       dirs = [[], [''clips''], [''clips'', ''a''], [''out'']]\<rparr>,
      [Call_mkdir [''out''],
       Call_detect VideoRemover [''clips'', ''a'', ''b.mp4''],
       Call_probe [''clips'', ''a'', ''b.mp4''],
       Call_ffmpeg [''clips'', ''a'', ''b.mp4''] [''out'', ''a'', ''b_noblack.mp4'']
         (0, 140, 1920, 520),
       Print_video_cropped [''clips'', ''a'', ''b.mp4''] [''out'', ''a'', ''b_noblack.mp4''],
       Call_detect BlackRemover [''clips'', ''c.png''],
       Call_probe [''clips'', ''c.png''],
       Call_mkdir [''out''],
       Call_copy2 [''clips'', ''c.png''] [''out'', ''c_noblack.png''],
       Print_copied [''clips'', ''c.png''] [''out'', ''c_noblack.png''],
       Print_batch_done,
       Call_write_result ''result.json''
         \<lparr>success = True, video_path = Some ''out'',
          environment_info = Some (''python3'', ''None''), error = None\<rparr>])"
  by (simp add: example_defs main_defs batch_defs fs_defs path_defs Let_def)

text \<open>The example run exits with 0, reports success and leaves the result document.\<close>

theorem exit_status_follows_success_witness:
  "fst (main example_env example_fs example_argv) = 0
   \<and> success (fst (snd (main example_env example_fs example_argv)))
   \<and> length example_argv = 3
   \<and> write_error example_env (example_argv ! 2) = None
   \<and> is_file (fst (snd (snd (main example_env example_fs example_argv)))) (parts (example_argv ! 2))"
  using exit_status_follows_success [of main example_env example_fs example_argv, OF disjI1 [OF refl] example_main_run]
  by (simp add: example_main_run) (simp add: example_defs)

section \<open>What one turn of the loop writes\<close>

















section \<open>What a whole batch writes\<close>







lemma rglob_below: "p \<in> set (rglob fs root) \<Longrightarrow> strict_prefix root p"
  by (auto simp: rglob_def split: if_splits)






section \<open>Output naming\<close>






section \<open>Writes and the input tree\<close>


lemma example_batch_run:
  "batch_process_media example_env example_fs (JStr ''clips'') (JStr ''out'') (JBool True)
     (JStr ''static'') (JNum 10) =
     (Inr ''out'',
      \<lparr>files = [[''cfg.json''], [''clips'', ''a'', ''b.mp4''], [''clips'', ''c.png''],
                [''out'', ''a'', ''b_noblack.mp4''], [''out'', ''c_noblack.png'']],
       dirs = [[], [''clips''], [''clips'', ''a''], [''out'']]\<rparr>,
      [Call_mkdir [''out''],
       Call_detect IMGBlackRemover [''clips'', ''a'', ''b.mp4''],
       Call_probe [''clips'', ''a'', ''b.mp4''],
       Call_ffmpeg [''clips'', ''a'', ''b.mp4''] [''out'', ''a'', ''b_noblack.mp4'']
         (0, 140, 1920, 520),
       Print_video_cropped [''clips'', ''a'', ''b.mp4''] [''out'', ''a'', ''b_noblack.mp4''],
       Call_detect BlackRemover [''clips'', ''c.png''],
       Call_probe [''clips'', ''c.png''],
       Call_mkdir [''out''],
       Call_copy2 [''clips'', ''c.png''] [''out'', ''c_noblack.png''],
       Print_copied [''clips'', ''c.png''] [''out'', ''c_noblack.png'']])"
  by (simp add: example_defs batch_defs fs_defs path_defs Let_def)



section \<open>Failure isolation\<close>

lemma process_media_file_no_raise:
  "prefix (input_dir a) p \<Longrightarrow> fst (process_media_file env a fs p) = None"
  by (simp add: process_media_file_def relative_to_def Let_def split: prod.splits option.splits)

lemma for_each_no_raise:
  assumes "\<And>fs p. p \<in> set ps \<Longrightarrow> fst (body fs p) = None"
  shows "fst (for_each body ps fs) = None"
  using assms
proof (induction ps arbitrary: fs)
  case Nil
  then show ?case by simp
next
  case (Cons p ps)
  obtain r1 fs1 ev1 where b: "body fs p = (r1, fs1, ev1)" by (metis prod_cases3)
  with Cons.prems [of p fs] have r1: "r1 = None" by simp
  obtain r2 fs2 ev2 where f: "for_each body ps fs1 = (r2, fs2, ev2)" by (metis prod_cases3)
  have "fst (for_each body ps fs1) = None"
    by (rule Cons.IH) (simp add: Cons.prems)
  with b r1 f show ?case by simp
qed

text \<open>
  In black_remove.py nothing that happens to a single file reaches the caller: once the
  output root is made, the batch returns the output root, and \<^verbatim>\<open>main\<close> reports success.
\<close>

lemma batch_process_media_isolates:
  assumes "mkdir_error env (parts out) = None"
  shows "fst (batch_process_media env fs (JStr i) (JStr out) crop alg frames) = Inr (str_path (parts out))"
proof -
  let ?a = "\<lparr>input_dir = parts i, output_dir = parts out, crop_enabled = crop,
             video_algorithm = alg, max_frames = frames\<rparr>"
  let ?fs1 = "add_dirs (parts out) fs"
  obtain r2 fs2 ev2 where
    f: "for_each (process_media_file env ?a) (rglob ?fs1 (parts i)) ?fs1 = (r2, fs2, ev2)"
    by (metis prod_cases3)
  have "fst (for_each (process_media_file env ?a) (rglob ?fs1 (parts i)) ?fs1) = None"
  proof (rule for_each_no_raise)
    fix fsa p assume "p \<in> set (rglob ?fs1 (parts i))"
    then have "prefix (input_dir ?a) p" using rglob_below by (simp add: strict_prefix_def)
    then show "fst (process_media_file env ?a fsa p) = None" by (rule process_media_file_no_raise)
  qed
  with assms f show ?thesis
    by (simp add: batch_process_media_def Path_def mkdir_parents_def Let_def)
qed

text \<open>The same tree and detector under black_remove.py: one failure line, the second video cropped.\<close>

lemma unified_run_survives_corrupt_video:
  "main corrupt_env two_videos_fs example_argv =
     (0,
      \<lparr>success = True, video_path = Some ''out'',
       environment_info = Some (''python3'', ''None''), error = None\<rparr>,
      \<lparr>files = [[''cfg.json''], [''clips'', ''a'', ''b.mp4''], [''clips'', ''d.mp4''],
                [''out'', ''d_noblack.mp4''], [''result.json'']],
       dirs = [[], [''clips''], [''clips'', ''a''], [''out'']]\<rparr>,
      [Call_mkdir [''out''],
       Call_detect VideoRemover [''clips'', ''a'', ''b.mp4''],
       Print_failed [''clips'', ''a'', ''b.mp4''] (Raised ''corrupt''),
       Call_detect VideoRemover [''clips'', ''d.mp4''],
       Call_probe [''clips'', ''d.mp4''],
       Call_ffmpeg [''clips'', ''d.mp4''] [''out'', ''d_noblack.mp4''] (0, 140, 1920, 520),
       Print_video_cropped [''clips'', ''d.mp4''] [''out'', ''d_noblack.mp4''],
       Print_batch_done,
       Call_write_result ''result.json''
         \<lparr>success = True, video_path = Some ''out'',
          environment_info = Some (''python3'', ''None''), error = None\<rparr>])"
  by (simp add: corrupt_env_def two_videos_fs_def example_defs main_defs batch_defs fs_defs
        path_defs Let_def)

text \<open>
  Claim C1, the failing input. On a tree of two videos whose first makes the detector
  raise, \<^verbatim>\<open>main\<close> of video_black_remove.py stops at that file: the exception leaves
  \<^verbatim>\<open>batch_crop_videos\<close>, the second video is never looked at, the result document says
  \<open>success = False\<close> and the exit status is 1.
\<close>

theorem corrupt_video_aborts_video_only_batch:
  "vbr_main corrupt_env two_videos_fs example_argv =
     (1,
      \<lparr>success = False, video_path = None, environment_info = None,
       error = Some (Raised ''corrupt'')\<rparr>,
      \<lparr>files = [[''cfg.json''], [''clips'', ''a'', ''b.mp4''], [''clips'', ''d.mp4''],
                [''result.json'']],
       dirs = [[], [''clips''], [''clips'', ''a''], [''out'']]\<rparr>,
      [Call_mkdir [''out''],
       Call_detect VideoRemover [''clips'', ''a'', ''b.mp4''],
       Print_run_failed (Raised ''corrupt''),
       Call_write_result ''result.json''
         \<lparr>success = False, video_path = None, environment_info = None,
          error = Some (Raised ''corrupt'')\<rparr>])"
  by (simp add: corrupt_env_def two_videos_fs_def example_defs main_defs batch_defs fs_defs
        path_defs Let_def)

section \<open>Failures of the transcoding process\<close>




section \<open>Strategy selection\<close>

lemma try_body_image_ignores_algorithm:
  "try_body env (a\<lparr>video_algorithm := alg\<rparr>) fs ''image'' p t = try_body env a fs ''image'' p t"
proof -
  have "detect_media env (a\<lparr>video_algorithm := alg\<rparr>) ''image'' rmv p =
        detect_media env a ''image'' rmv p" for rmv
    by (simp add: detect_media_def)
  then show ?thesis
    by (simp add: try_body_def get_remover_def split: sum.splits prod.splits)
qed

text \<open>
  Claim C8, as amended. With a video algorithm other than \<open>dynamic\<close> and \<open>static\<close>, a
  video that is due for processing fails at strategy selection: one failure line, no
  detection, no copy, no crop, no change to the file system, and no exception for the
  batch. Any other file is processed exactly as under a valid setting: images are
  detected, copied and cropped as usual.
\<close>

theorem unknown_algorithm_fails_videos_only:
  assumes "video_algorithm a \<noteq> JStr ''dynamic''" and "video_algorithm a \<noteq> JStr ''static''"
      and "is_file fs p" and "relative_to p (input_dir a) = Inr rel"
      and "\<not> path_exists fs (output_file_of (output_dir a) rel)"
  shows "(lower (path_suffix p) \<in> set video_extensions \<longrightarrow>
            process_media_file env a fs p = (None, fs, [Print_failed p ValueError]))
       \<and> (lower (path_suffix p) \<notin> set video_extensions \<longrightarrow>
            process_media_file env a fs p =
            process_media_file env (a\<lparr>video_algorithm := JStr ''dynamic''\<rparr>) fs p)"
proof (intro conjI impI)
  assume "lower (path_suffix p) \<in> set video_extensions"
  with assms show "process_media_file env a fs p = (None, fs, [Print_failed p ValueError])"
    by (simp add: process_media_file_def try_body_def get_remover_def Let_def)
next
  assume "lower (path_suffix p) \<notin> set video_extensions"
  with assms(4) show "process_media_file env a fs p =
             process_media_file env (a\<lparr>video_algorithm := JStr ''dynamic''\<rparr>) fs p"
    by (simp add: process_media_file_def try_body_image_ignores_algorithm Let_def)
qed

text \<open>The video of the example tree under the algorithm \<open>fast\<close>.\<close>

theorem unknown_algorithm_fails_videos_only_witness:
  "video_algorithm fast_args \<noteq> JStr ''dynamic'' \<and> video_algorithm fast_args \<noteq> JStr ''static''
   \<and> is_file example_fs [''clips'', ''a'', ''b.mp4'']
   \<and> lower (path_suffix [''clips'', ''a'', ''b.mp4'']) \<in> set video_extensions
   \<and> process_media_file example_env fast_args example_fs [''clips'', ''a'', ''b.mp4''] =
       (None, example_fs, [Print_failed [''clips'', ''a'', ''b.mp4''] ValueError])"
proof -
  let ?p = "[''clips'', ''a'', ''b.mp4'']"
  have 1: "video_algorithm fast_args \<noteq> JStr ''dynamic''" "video_algorithm fast_args \<noteq> JStr ''static''"
    by (simp_all add: fast_args_def)
  have 2: "is_file example_fs ?p" by (simp add: example_defs fs_defs)
  have 3: "relative_to ?p (input_dir fast_args) = Inr [''a'', ''b.mp4'']"
    by (simp add: fast_args_def example_args_def path_defs)
  have 4: "\<not> path_exists example_fs (output_file_of (output_dir fast_args) [''a'', ''b.mp4''])"
    by (simp add: fast_args_def example_args_def example_defs fs_defs path_defs)
  have 5: "lower (path_suffix ?p) \<in> set video_extensions" by (simp add: path_defs)
  from unknown_algorithm_fails_videos_only [OF 1 2 3 4, of example_env] 1 2 5
  show ?thesis by simp
qed

text \<open>
  Claim C8 as stated fails: under the unknown algorithm \<open>fast\<close> the batch still detects
  and copies the image of the example tree, after the video has failed.
\<close>

theorem unknown_algorithm_counterexample:
  "batch_process_media example_env example_fs (JStr ''clips'') (JStr ''out'') (JBool True)
     (JStr ''fast'') (JNum 10) =
     (Inr ''out'',
      \<lparr>files = [[''cfg.json''], [''clips'', ''a'', ''b.mp4''], [''clips'', ''c.png''],
                [''out'', ''c_noblack.png'']],
       dirs = [[], [''clips''], [''clips'', ''a''], [''out'']]\<rparr>,
      [Call_mkdir [''out''],
       Print_failed [''clips'', ''a'', ''b.mp4''] ValueError,
       Call_detect BlackRemover [''clips'', ''c.png''],
       Call_probe [''clips'', ''c.png''],
       Call_mkdir [''out''],
       Call_copy2 [''clips'', ''c.png''] [''out'', ''c_noblack.png''],
       Print_copied [''clips'', ''c.png''] [''out'', ''c_noblack.png'']])"
  by (simp add: example_defs batch_defs fs_defs path_defs Let_def)

section \<open>A missing input root\<close>

lemma for_each_nothing:
  assumes "\<And>p. p \<in> set ps \<Longrightarrow> body fs p = (None, fs, [])"
  shows "for_each body ps fs = (None, fs, [])"
  using assms by (induction ps) simp_all

lemma missing_root_batch:
  assumes "missing_root fs (parts root)" and "mkdir_error env (parts out) = None"
  shows "batch_process_media env fs (JStr root) (JStr out) crop alg frames =
           (Inr (str_path (parts out)), add_dirs (parts out) fs, [Call_mkdir (parts out)])"
proof -
  let ?a = "\<lparr>input_dir = parts root, output_dir = parts out, crop_enabled = crop,
             video_algorithm = alg, max_frames = frames\<rparr>"
  let ?fs1 = "add_dirs (parts out) fs"
  have "for_each (process_media_file env ?a) (rglob ?fs1 (parts root)) ?fs1 = (None, ?fs1, [])"
  proof (rule for_each_nothing)
    fix p assume "p \<in> set (rglob ?fs1 (parts root))"
    then have "prefix (parts root) p" using rglob_below by (simp add: strict_prefix_def)
    with assms(1) have "\<not> is_file ?fs1 p"
      by (auto simp: missing_root_def is_file_def add_dirs_def)
    then show "process_media_file env ?a ?fs1 p = (None, ?fs1, [])"
      by (simp add: process_media_file_def)
  qed
  with assms(2) show ?thesis
    by (simp add: batch_process_media_def Path_def mkdir_parents_def Let_def)
qed

text \<open>
  Claim C6, as amended. If the configured input root does not exist, no file is touched
  or processed: the batch only creates the output root. The run is not fatal, though:
  when the output root can be created and the result document written, \<^verbatim>\<open>main\<close> reports
  success with no error and exits with 0. The fatal outcome (error set, success false,
  exit status 1, nothing processed) is what a missing input configuration file gives.
\<close>

theorem missing_input_root_is_not_fatal:
  assumes "length argv = 3"
  shows "(os_path_exists fs (argv ! 1)
          \<and> and_then (load_json env (argv ! 1)) read_config = Inr (JStr root, JStr out, crop, alg, frames)
          \<and> missing_root fs (parts root)
          \<and> mkdir_error env (parts out) = None \<and> write_error env (argv ! 2) = None \<longrightarrow>
          main env fs argv =
            (0,
             \<lparr>success = True, video_path = Some (str_path (parts out)),
              environment_info = Some (environment env), error = None\<rparr>,
             add_file (parts (argv ! 2)) (add_dirs (parts out) fs),
             [Call_mkdir (parts out), Print_batch_done,
              Call_write_result (argv ! 2)
                \<lparr>success = True, video_path = Some (str_path (parts out)),
                 environment_info = Some (environment env), error = None\<rparr>]))
       \<and> (\<not> os_path_exists fs (argv ! 1) \<longrightarrow>
          fst (main env fs argv) = 1
          \<and> fst (snd (main env fs argv)) =
              \<lparr>success = False, video_path = None, environment_info = None,
               error = Some FileNotFoundError\<rparr>
          \<and> snd (snd (snd (main env fs argv))) =
              Print_run_failed FileNotFoundError #
              (case write_error env (argv ! 2) of
                 None \<Rightarrow> [Call_write_result (argv ! 2)
                            \<lparr>success = False, video_path = None, environment_info = None,
                             error = Some FileNotFoundError\<rparr>]
               | Some e \<Rightarrow> [Print_write_failed e]))"
proof (rule conjI; rule impI)
  assume h: "os_path_exists fs (argv ! 1)
          \<and> and_then (load_json env (argv ! 1)) read_config = Inr (JStr root, JStr out, crop, alg, frames)
          \<and> missing_root fs (parts root)
          \<and> mkdir_error env (parts out) = None \<and> write_error env (argv ! 2) = None"
  then have b: "batch_process_media env fs (JStr root) (JStr out) crop alg frames =
           (Inr (str_path (parts out)), add_dirs (parts out) fs, [Call_mkdir (parts out)])"
    using missing_root_batch by blast
  from h assms b show "main env fs argv =
            (0,
             \<lparr>success = True, video_path = Some (str_path (parts out)),
              environment_info = Some (environment env), error = None\<rparr>,
             add_file (parts (argv ! 2)) (add_dirs (parts out) fs),
             [Call_mkdir (parts out), Print_batch_done,
              Call_write_result (argv ! 2)
                \<lparr>success = True, video_path = Some (str_path (parts out)),
                 environment_info = Some (environment env), error = None\<rparr>])"
    by (simp add: main_def main_try_def finish_def write_and_exit_def Let_def)
next
  assume n: "\<not> os_path_exists fs (argv ! 1)"
  with assms show "fst (main env fs argv) = 1
          \<and> fst (snd (main env fs argv)) =
              \<lparr>success = False, video_path = None, environment_info = None,
               error = Some FileNotFoundError\<rparr>
          \<and> snd (snd (snd (main env fs argv))) =
              Print_run_failed FileNotFoundError #
              (case write_error env (argv ! 2) of
                 None \<Rightarrow> [Call_write_result (argv ! 2)
                            \<lparr>success = False, video_path = None, environment_info = None,
                             error = Some FileNotFoundError\<rparr>]
               | Some e \<Rightarrow> [Print_write_failed e])"
    by (simp add: main_def main_try_def finish_def write_and_exit_def initial_result_def Let_def
             split: option.splits)
qed

text \<open>The example configuration on a tree without \<open>clips\<close>.\<close>

theorem missing_input_root_is_not_fatal_witness:
  "length example_argv = 3 \<and> os_path_exists no_clips_fs (example_argv ! 1)
   \<and> missing_root no_clips_fs (parts ''clips'')
   \<and> main example_env no_clips_fs example_argv =
       (0,
        \<lparr>success = True, video_path = Some ''out'',
         environment_info = Some (''python3'', ''None''), error = None\<rparr>,
        \<lparr>files = [[''cfg.json''], [''result.json'']], dirs = [[], [''out'']]\<rparr>,
        [Call_mkdir [''out''], Print_batch_done,
         Call_write_result ''result.json''
           \<lparr>success = True, video_path = Some ''out'',
            environment_info = Some (''python3'', ''None''), error = None\<rparr>])"
proof -
  have 1: "length example_argv = 3" by (simp add: example_argv_def)
  have 2: "os_path_exists no_clips_fs (example_argv ! 1)"
    by (simp add: example_argv_def no_clips_fs_def fs_defs path_defs)
  have 3: "and_then (load_json example_env (example_argv ! 1)) read_config =
             Inr (JStr ''clips'', JStr ''out'', JBool True, JStr ''dynamic'', JNum 500)"
    by (simp add: example_defs main_defs)
  have 4: "missing_root no_clips_fs (parts ''clips'')"
    by (simp add: missing_root_def no_clips_fs_def fs_defs path_defs)
  have 5: "mkdir_error example_env (parts ''out'') = None" "write_error example_env (example_argv ! 2) = None"
    by (simp_all add: example_env_def)
  from missing_input_root_is_not_fatal [OF 1, of no_clips_fs example_env "''clips''" "''out''"
      "JBool True" "JStr ''dynamic''" "JNum 500"] 2 3 4 5
  have "main example_env no_clips_fs example_argv =
            (0,
             \<lparr>success = True, video_path = Some (str_path (parts ''out'')),
              environment_info = Some (environment example_env), error = None\<rparr>,
             add_file (parts (example_argv ! 2)) (add_dirs (parts ''out'') no_clips_fs),
             [Call_mkdir (parts ''out''), Print_batch_done,
              Call_write_result (example_argv ! 2)
                \<lparr>success = True, video_path = Some (str_path (parts ''out'')),
                 environment_info = Some (environment example_env), error = None\<rparr>])"
    by blast
  with 1 2 4 show ?thesis
    by (simp add: example_defs no_clips_fs_def fs_defs path_defs)
qed

text \<open>
  Claim C6 as stated fails: with the input root \<open>clips\<close> missing, the run ends with exit
  status 0, \<open>success = True\<close> and no error.
\<close>

theorem missing_input_root_counterexample:
  "\<not> path_exists no_clips_fs (parts ''clips'')
   \<and> fst (main example_env no_clips_fs example_argv) = 0
   \<and> success (fst (snd (main example_env no_clips_fs example_argv)))
   \<and> error (fst (snd (main example_env no_clips_fs example_argv))) = None"
  by (simp add: no_clips_fs_def example_defs main_defs batch_defs fs_defs path_defs Let_def)

section \<open>Degenerate rectangles\<close>

lemma detect_media_no_crop:
  "detect_media env a mt rmv p = (r, evs) \<Longrightarrow> \<forall>e \<in> set evs. \<not> is_crop_call e"
  by (auto simp: detect_media_def is_crop_call_def Let_def
           split: if_splits sum.splits prod.splits option.splits)

lemma copy_branch_no_crop:
  "copy_branch env fs p t = (r, fs', evs) \<Longrightarrow> \<forall>e \<in> set evs. \<not> is_crop_call e"
  by (auto simp: copy_branch_def mkdir_parents_def is_crop_call_def split: option.splits)

lemma degenerate_crop_raises:
  assumes "degenerate mt rect"
  shows "(if mt = ''video'' then crop_video env fs p t rect else crop_image env fs p t rect)
           = (Some ValueError, fs, [])"
proof (cases "mt = ''video''")
  case True
  with assms show ?thesis
    by (auto simp: degenerate_def crop_video_def split: prod.splits)
next
  case False
  with assms show ?thesis
    by (auto simp: degenerate_def crop_image_def Let_def split: prod.splits)
qed

text \<open>
  Claim C3, as amended. For a file that is due for processing and whose detected
  rectangle has a non-positive width or height in its normal form: no crop is ever
  executed with it (ffmpeg is not run, no image is written); with cropping enabled and
  the rectangle differing from the native frame, the crop executor rejects it, the file
  ends with the failure line for a ValueError and the file system is unchanged; with
  cropping disabled the file is copied like any other.
\<close>

theorem degenerate_rectangle_is_never_cropped:
  assumes "is_file fs p"
      and "lower (path_suffix p) \<in> set video_extensions \<or> lower (path_suffix p) \<in> set image_extensions"
      and "mt = (if lower (path_suffix p) \<in> set video_extensions then ''video'' else ''image'')"
      and "relative_to p (input_dir a) = Inr rel"
      and "\<not> path_exists fs (output_file_of (output_dir a) rel)"
      and "get_remover mt (video_algorithm a) = Inr rmv"
      and "detect_media env a mt rmv p = (Inr (rect, has_black), dev)"
      and "degenerate mt rect"
  shows "(\<forall>e \<in> set (snd (snd (process_media_file env a fs p))). \<not> is_crop_call e)
       \<and> (truthy (crop_enabled a) \<and> has_black \<longrightarrow>
            process_media_file env a fs p = (None, fs, dev @ [Print_failed p ValueError]))
       \<and> (\<not> truthy (crop_enabled a) \<longrightarrow>
            process_media_file env a fs p =
              (None,
               fst (snd (copy_branch env fs p (output_file_of (output_dir a) rel))),
               dev @ snd (snd (copy_branch env fs p (output_file_of (output_dir a) rel)))
                 @ (case fst (copy_branch env fs p (output_file_of (output_dir a) rel)) of
                      None \<Rightarrow> [] | Some e \<Rightarrow> [Print_failed p e])))"
proof -
  let ?t = "output_file_of (output_dir a) rel"
  obtain rc fsc evc where c: "copy_branch env fs p ?t = (rc, fsc, evc)" by (metis prod_cases3)
  have pm: "process_media_file env a fs p =
            (case try_body env a fs mt p ?t of
               (Some e, fs', evs) \<Rightarrow> (None, fs', evs @ [Print_failed p e])
             | (None, fs', evs) \<Rightarrow> (None, fs', evs))"
    using assms(1-5) by (auto simp: process_media_file_def Let_def)
  have crop: "truthy (crop_enabled a) \<and> has_black \<Longrightarrow>
              try_body env a fs mt p ?t = (Some ValueError, fs, dev)"
    using assms(6,7) degenerate_crop_raises [OF assms(8), of env fs p ?t]
    by (auto simp: try_body_def split: if_splits)
  have copy: "\<not> (truthy (crop_enabled a) \<and> has_black) \<Longrightarrow>
              try_body env a fs mt p ?t = (rc, fsc, dev @ evc)"
    using assms(6,7) c by (auto simp: try_body_def)
  have nd: "\<forall>e \<in> set dev. \<not> is_crop_call e" by (rule detect_media_no_crop [OF assms(7)])
  have nc: "\<forall>e \<in> set evc. \<not> is_crop_call e" by (rule copy_branch_no_crop [OF c])
  have 1: "\<forall>e \<in> set (snd (snd (process_media_file env a fs p))). \<not> is_crop_call e"
  proof (cases "truthy (crop_enabled a) \<and> has_black")
    case True
    with pm crop nd show ?thesis by (auto simp: is_crop_call_def)
  next
    case False
    with pm copy nd nc show ?thesis by (cases rc) (auto simp: is_crop_call_def)
  qed
  have 2: "truthy (crop_enabled a) \<and> has_black \<longrightarrow>
            process_media_file env a fs p = (None, fs, dev @ [Print_failed p ValueError])"
    using pm crop by simp
  have 3: "\<not> truthy (crop_enabled a) \<longrightarrow>
            process_media_file env a fs p =
              (None, fst (snd (copy_branch env fs p ?t)),
               dev @ snd (snd (copy_branch env fs p ?t))
                 @ (case fst (copy_branch env fs p ?t) of None \<Rightarrow> [] | Some e \<Rightarrow> [Print_failed p e]))"
    using pm copy c by (cases rc) auto
  from 1 2 3 show ?thesis by blast
qed

text \<open>With cropping enabled, the video whose rectangle is \<open>(0, 0, 0, 0)\<close> fails and nothing is written.\<close>

theorem degenerate_rectangle_is_never_cropped_witness:
  "degenerate ''video'' (0, 0, 0, 0)
   \<and> is_file example_fs [''clips'', ''a'', ''b.mp4'']
   \<and> truthy (crop_enabled example_args)
   \<and> process_media_file empty_rect_env example_args example_fs [''clips'', ''a'', ''b.mp4''] =
       (None, example_fs,
        [Call_detect IMGBlackRemover [''clips'', ''a'', ''b.mp4''],
         Call_probe [''clips'', ''a'', ''b.mp4''],
         Print_failed [''clips'', ''a'', ''b.mp4''] ValueError])"
proof -
  let ?p = "[''clips'', ''a'', ''b.mp4'']"
  have 1: "is_file example_fs ?p" by (simp add: example_defs fs_defs)
  have 2: "lower (path_suffix ?p) \<in> set video_extensions \<or> lower (path_suffix ?p) \<in> set image_extensions"
    by (simp add: path_defs)
  have 3: "''video'' = (if lower (path_suffix ?p) \<in> set video_extensions then ''video'' else ''image'')"
    by (simp add: path_defs)
  have 4: "relative_to ?p (input_dir example_args) = Inr [''a'', ''b.mp4'']"
    by (simp add: example_args_def path_defs)
  have 5: "\<not> path_exists example_fs (output_file_of (output_dir example_args) [''a'', ''b.mp4''])"
    by (simp add: example_args_def example_defs fs_defs path_defs)
  have 6: "get_remover ''video'' (video_algorithm example_args) = Inr IMGBlackRemover"
    by (simp add: example_args_def get_remover_def)
  have 7: "detect_media empty_rect_env example_args ''video'' IMGBlackRemover ?p =
             (Inr ((0, 0, 0, 0), True), [Call_detect IMGBlackRemover ?p, Call_probe ?p])"
    by (simp add: empty_rect_env_def example_args_def example_env_def detect_media_def)
  have 8: "degenerate ''video'' (0, 0, 0, 0)" by (simp add: degenerate_def)
  have 9: "truthy (crop_enabled example_args)" by (simp add: example_args_def truthy_def)
  from degenerate_rectangle_is_never_cropped [OF 1 2 3 4 5 6 7 8] 1 8 9
  show ?thesis by simp
qed

text \<open>
  Claim C3 as stated fails with cropping disabled: the video whose rectangle is
  \<open>(0, 0, 0, 0)\<close> is copied to its target.
\<close>

theorem degenerate_rectangle_copied_counterexample:
  "degenerate ''video'' (0, 0, 0, 0)
   \<and> process_media_file empty_rect_env (example_args\<lparr>crop_enabled := JBool False\<rparr>) example_fs
       [''clips'', ''a'', ''b.mp4''] =
       (None,
        \<lparr>files = [[''cfg.json''], [''clips'', ''a'', ''b.mp4''], [''clips'', ''c.png''],
                  [''out'', ''a'', ''b_noblack.mp4'']],
         dirs = [[], [''clips''], [''clips'', ''a''], [''out''], [''out'', ''a'']]\<rparr>,
        [Call_detect IMGBlackRemover [''clips'', ''a'', ''b.mp4''],
         Call_probe [''clips'', ''a'', ''b.mp4''],
         Call_mkdir [''out'', ''a''],
         Call_copy2 [''clips'', ''a'', ''b.mp4''] [''out'', ''a'', ''b_noblack.mp4''],
         Print_copied [''clips'', ''a'', ''b.mp4''] [''out'', ''a'', ''b_noblack.mp4'']])"
  by (simp add: degenerate_def empty_rect_env_def example_args_def example_defs batch_defs
        fs_defs path_defs Let_def)

section \<open>The has-black-bars decision\<close>

text \<open>
  In black_remove.py the flag for a video is computed from the detected width and height
  and the frame size that OpenCV reports for the file.
\<close>

lemma has_black_compares_probed_frame:
  "detect_media env a ''video'' rmv p = (Inr ((x, y, w, h), has_black), evs)
     \<Longrightarrow> has_black = (\<not> (w = frame_width env p \<and> h = frame_height env p))"
  by (auto simp: detect_media_def Let_def split: if_splits sum.splits prod.splits)

text \<open>
  Claim C2, the failing input. A 1920x800 video without bars (the detector returns the
  full frame) of 5000000 bytes: black_remove.py copies it, but video_black_remove.py
  compares width and height with the file size, finds them different and runs the crop.
\<close>

theorem full_frame_video_is_cropped_by_video_only_batch:
  "frame_width full_frame_env [''clips'', ''a'', ''b.mp4''] = 1920
   \<and> frame_height full_frame_env [''clips'', ''a'', ''b.mp4''] = 800
   \<and> st_size full_frame_env [''clips'', ''a'', ''b.mp4''] = 5000000
   \<and> process_video_file full_frame_env (parts ''clips'') (parts ''out'') example_fs
       [''clips'', ''a'', ''b.mp4''] =
       (None,
        \<lparr>files = [[''cfg.json''], [''clips'', ''a'', ''b.mp4''], [''clips'', ''c.png''],
                  [''out'', ''a'', ''b_noblack.mp4'']],
         dirs = [[], [''clips''], [''clips'', ''a''], [''out''], [''out'', ''a'']]\<rparr>,
        [Call_detect VideoRemover [''clips'', ''a'', ''b.mp4''],
         Call_mkdir [''out'', ''a''],
         Call_ffmpeg [''clips'', ''a'', ''b.mp4''] [''out'', ''a'', ''b_noblack.mp4'']
           (0, 0, 1920, 800),
         Print_video_cropped [''clips'', ''a'', ''b.mp4''] [''out'', ''a'', ''b_noblack.mp4'']])
   \<and> process_media_file full_frame_env example_args example_fs [''clips'', ''a'', ''b.mp4''] =
       (None,
        \<lparr>files = [[''cfg.json''], [''clips'', ''a'', ''b.mp4''], [''clips'', ''c.png''],
                  [''out'', ''a'', ''b_noblack.mp4'']],
         dirs = [[], [''clips''], [''clips'', ''a''], [''out''], [''out'', ''a'']]\<rparr>,
        [Call_detect IMGBlackRemover [''clips'', ''a'', ''b.mp4''],
         Call_probe [''clips'', ''a'', ''b.mp4''],
         Call_mkdir [''out'', ''a''],
         Call_copy2 [''clips'', ''a'', ''b.mp4''] [''out'', ''a'', ''b_noblack.mp4''],
         Print_copied [''clips'', ''a'', ''b.mp4''] [''out'', ''a'', ''b_noblack.mp4'']])"
  by (simp add: full_frame_env_def example_args_def example_defs batch_defs fs_defs path_defs
        Let_def)

section \<open>Resumption\<close>

lemma skip_existing_media:
  assumes "is_file fs p"
      and "lower (path_suffix p) \<in> set video_extensions \<or> lower (path_suffix p) \<in> set image_extensions"
      and "relative_to p (input_dir a) = Inr rel"
      and "path_exists fs (output_file_of (output_dir a) rel)"
  shows "process_media_file env a fs p = (None, fs, [Print_skip_existing p])"
  using assms by (auto simp: process_media_file_def Let_def)

lemma skip_existing_video:
  assumes "is_file fs p" and "lower (path_suffix p) \<in> set video_extensions"
      and "relative_to p in_dir = Inr rel"
      and "path_exists fs (output_file_of out_dir rel)"
  shows "process_video_file env in_dir out_dir fs p = (None, fs, [Print_skip_existing p])"
  using assms by (simp add: process_video_file_def Let_def)

lemma add_dirs_existing: "set (prefixes d) \<subseteq> set (dirs fs) \<Longrightarrow> add_dirs d fs = fs"
proof -
  assume "set (prefixes d) \<subseteq> set (dirs fs)"
  then have "filter (\<lambda>q. q \<notin> set (dirs fs)) (prefixes d) = []"
    by (auto simp: filter_empty_conv)
  then show ?thesis by (simp add: add_dirs_def)
qed

lemma for_each_only_skips:
  assumes "\<And>p. p \<in> set ps \<Longrightarrow> fst (body fs p) = None \<and> fst (snd (body fs p)) = fs
              \<and> (\<forall>e \<in> set (snd (snd (body fs p))). is_skip_line e)"
  shows "fst (for_each body ps fs) = None \<and> fst (snd (for_each body ps fs)) = fs
       \<and> (\<forall>e \<in> set (snd (snd (for_each body ps fs))). is_skip_line e)"
  using assms
proof (induction ps)
  case Nil
  then show ?case by simp
next
  case (Cons p ps)
  obtain ev1 where b: "body fs p = (None, fs, ev1)" and e1: "\<forall>e \<in> set ev1. is_skip_line e"
    using Cons.prems [of p] by (cases "body fs p") auto
  obtain r2 fs2 ev2 where f: "for_each body ps fs = (r2, fs2, ev2)" by (metis prod_cases3)
  have "fst (for_each body ps fs) = None \<and> fst (snd (for_each body ps fs)) = fs
       \<and> (\<forall>e \<in> set (snd (snd (for_each body ps fs))). is_skip_line e)"
  proof (rule Cons.IH)
    fix q assume "q \<in> set ps"
    then show "fst (body fs q) = None \<and> fst (snd (body fs q)) = fs
              \<and> (\<forall>e \<in> set (snd (snd (body fs q))). is_skip_line e)"
      using Cons.prems [of q] by simp
  qed
  with b e1 f show ?case by auto
qed

lemma media_scan_only_skips:
  assumes "targets_in_place fs (input_dir a) (output_dir a)" and "p \<in> set (rglob fs (input_dir a))"
  shows "fst (process_media_file env a fs p) = None \<and> fst (snd (process_media_file env a fs p)) = fs
       \<and> (\<forall>e \<in> set (snd (snd (process_media_file env a fs p))). is_skip_line e)"
proof -
  have rel: "relative_to p (input_dir a) = Inr (drop (length (input_dir a)) p)"
    using rglob_below [OF assms(2)] by (simp add: relative_to_def strict_prefix_def)
  from assms have "\<not> is_file fs p
            \<or> (lower (path_suffix p) \<notin> set video_extensions
               \<and> lower (path_suffix p) \<notin> set image_extensions)
            \<or> path_exists fs (output_file_of (output_dir a) (drop (length (input_dir a)) p))"
    by (auto simp: targets_in_place_def list_all_iff)
  then consider "\<not> is_file fs p"
    | "is_file fs p" "lower (path_suffix p) \<notin> set video_extensions \<and> lower (path_suffix p) \<notin> set image_extensions"
    | "is_file fs p" "lower (path_suffix p) \<in> set video_extensions \<or> lower (path_suffix p) \<in> set image_extensions"
      "path_exists fs (output_file_of (output_dir a) (drop (length (input_dir a)) p))"
    by blast
  then show ?thesis
  proof cases
    case 1
    then show ?thesis by (simp add: process_media_file_def)
  next
    case 2
    then show ?thesis by (simp add: process_media_file_def Let_def is_skip_line_def)
  next
    case 3
    from skip_existing_media [OF 3(1) 3(2) rel 3(3)] show ?thesis by (simp add: is_skip_line_def)
  qed
qed

lemma video_scan_only_skips:
  assumes "targets_in_place fs in_dir out_dir" and "p \<in> set (rglob fs in_dir)"
  shows "fst (process_video_file env in_dir out_dir fs p) = None
       \<and> fst (snd (process_video_file env in_dir out_dir fs p)) = fs
       \<and> (\<forall>e \<in> set (snd (snd (process_video_file env in_dir out_dir fs p))). is_skip_line e)"
proof -
  have rel: "relative_to p in_dir = Inr (drop (length in_dir) p)"
    using rglob_below [OF assms(2)] by (simp add: relative_to_def strict_prefix_def)
  from assms have c: "\<not> is_file fs p
            \<or> (lower (path_suffix p) \<notin> set video_extensions
               \<and> lower (path_suffix p) \<notin> set image_extensions)
            \<or> path_exists fs (output_file_of out_dir (drop (length in_dir) p))"
    by (auto simp: targets_in_place_def list_all_iff)
  show ?thesis
  proof (cases "lower (path_suffix p) \<in> set video_extensions \<and> is_file fs p")
    case False
    then show ?thesis by (auto simp: process_video_file_def)
  next
    case True
    with c have "path_exists fs (output_file_of out_dir (drop (length in_dir) p))" by blast
    from skip_existing_video [OF _ _ rel this] True show ?thesis by (simp add: is_skip_line_def)
  qed
qed

lemma second_media_batch:
  assumes "set (prefixes (parts out)) \<subseteq> set (dirs fs)"
      and "targets_in_place fs (parts i) (parts out)"
  shows "fst (snd (batch_process_media env fs (JStr i) (JStr out) crop alg frames)) = fs
       \<and> (\<forall>e \<in> set (snd (snd (batch_process_media env fs (JStr i) (JStr out) crop alg frames))).
            e = Call_mkdir (parts out) \<or> is_skip_line e)"
proof -
  let ?a = "\<lparr>input_dir = parts i, output_dir = parts out, crop_enabled = crop,
             video_algorithm = alg, max_frames = frames\<rparr>"
  obtain r2 fs2 ev2 where
    f: "for_each (process_media_file env ?a) (rglob fs (parts i)) fs = (r2, fs2, ev2)"
    by (metis prod_cases3)
  have "fst (for_each (process_media_file env ?a) (rglob fs (parts i)) fs) = None
      \<and> fst (snd (for_each (process_media_file env ?a) (rglob fs (parts i)) fs)) = fs
      \<and> (\<forall>e \<in> set (snd (snd (for_each (process_media_file env ?a) (rglob fs (parts i)) fs))).
           is_skip_line e)"
  proof (rule for_each_only_skips)
    fix p assume "p \<in> set (rglob fs (parts i))"
    with assms(2) media_scan_only_skips [of fs ?a p env]
    show "fst (process_media_file env ?a fs p) = None \<and> fst (snd (process_media_file env ?a fs p)) = fs
       \<and> (\<forall>e \<in> set (snd (snd (process_media_file env ?a fs p))). is_skip_line e)"
      by simp
  qed
  with f have "r2 = None" "fs2 = fs" "\<forall>e \<in> set ev2. is_skip_line e" by simp_all
  with f add_dirs_existing [OF assms(1)] show ?thesis
    by (cases "mkdir_error env (parts out)")
       (auto simp: batch_process_media_def Path_def mkdir_parents_def Let_def)
qed

lemma second_video_batch:
  assumes "set (prefixes (parts out)) \<subseteq> set (dirs fs)"
      and "targets_in_place fs (parts i) (parts out)"
  shows "fst (snd (batch_crop_videos env fs (JStr i) (JStr out))) = fs
       \<and> (\<forall>e \<in> set (snd (snd (batch_crop_videos env fs (JStr i) (JStr out)))).
            e = Call_mkdir (parts out) \<or> is_skip_line e)"
proof -
  let ?body = "process_video_file env (parts i) (parts out)"
  obtain r2 fs2 ev2 where f: "for_each ?body (rglob fs (parts i)) fs = (r2, fs2, ev2)"
    by (metis prod_cases3)
  have "fst (for_each ?body (rglob fs (parts i)) fs) = None
      \<and> fst (snd (for_each ?body (rglob fs (parts i)) fs)) = fs
      \<and> (\<forall>e \<in> set (snd (snd (for_each ?body (rglob fs (parts i)) fs))). is_skip_line e)"
  proof (rule for_each_only_skips)
    fix p assume "p \<in> set (rglob fs (parts i))"
    with assms(2) video_scan_only_skips [of fs "parts i" "parts out" p env]
    show "fst (?body fs p) = None \<and> fst (snd (?body fs p)) = fs
       \<and> (\<forall>e \<in> set (snd (snd (?body fs p))). is_skip_line e)"
      by simp
  qed
  with f have "r2 = None" "fs2 = fs" "\<forall>e \<in> set ev2. is_skip_line e" by simp_all
  with f add_dirs_existing [OF assms(1)] show ?thesis
    by (cases "mkdir_error env (parts out)")
       (auto simp: batch_crop_videos_def Path_def mkdir_parents_def)
qed

text \<open>
  Claim C4. In either loop a file whose target path exists is skipped with one printed
  line, before any strategy selection, detection or write, and the file system is left
  as it is. Hence a run over a tree in which the output root exists and every image and
  video already has its target (a second run after a complete first one) writes nothing:
  the file system after the run is the one before it, and the run does nothing but
  re-issue the \<^verbatim>\<open>mkdir\<close> of the existing output root and print skip lines.
\<close>

theorem existing_targets_are_skipped:
  "(is_file fs p
      \<and> (lower (path_suffix p) \<in> set video_extensions \<or> lower (path_suffix p) \<in> set image_extensions)
      \<and> relative_to p (input_dir a) = Inr rel
      \<and> path_exists fs (output_file_of (output_dir a) rel)
      \<longrightarrow> process_media_file env a fs p = (None, fs, [Print_skip_existing p]))
   \<and> (is_file fs p \<and> lower (path_suffix p) \<in> set video_extensions
      \<and> relative_to p (input_dir a) = Inr rel
      \<and> path_exists fs (output_file_of (output_dir a) rel)
      \<longrightarrow> process_video_file env (input_dir a) (output_dir a) fs p = (None, fs, [Print_skip_existing p]))
   \<and> (set (prefixes (parts out)) \<subseteq> set (dirs fs) \<and> targets_in_place fs (parts i) (parts out)
      \<longrightarrow> fst (snd (batch_process_media env fs (JStr i) (JStr out) crop alg frames)) = fs
        \<and> (\<forall>e \<in> set (snd (snd (batch_process_media env fs (JStr i) (JStr out) crop alg frames))).
             e = Call_mkdir (parts out) \<or> is_skip_line e)
        \<and> fst (snd (batch_crop_videos env fs (JStr i) (JStr out))) = fs
        \<and> (\<forall>e \<in> set (snd (snd (batch_crop_videos env fs (JStr i) (JStr out)))).
             e = Call_mkdir (parts out) \<or> is_skip_line e))"
  using skip_existing_media [of fs p a rel env] skip_existing_video [of fs p "input_dir a" rel "output_dir a" env]
    second_media_batch [of out fs i env crop alg frames] second_video_batch [of out fs i env]
  by blast

lemma after_first_run_eq:
  "after_first_run =
     \<lparr>files = [[''cfg.json''], [''clips'', ''a'', ''b.mp4''], [''clips'', ''c.png''],
               [''out'', ''a'', ''b_noblack.mp4''], [''out'', ''c_noblack.png'']],
      dirs = [[], [''clips''], [''clips'', ''a''], [''out'']]\<rparr>"
  by (simp add: after_first_run_def example_batch_run)

text \<open>The example batch run a second time: two skip lines, the file system as it was.\<close>

theorem existing_targets_are_skipped_witness:
  "set (prefixes (parts ''out'')) \<subseteq> set (dirs after_first_run)
   \<and> targets_in_place after_first_run (parts ''clips'') (parts ''out'')
   \<and> batch_process_media example_env after_first_run (JStr ''clips'') (JStr ''out'')
       (JBool True) (JStr ''static'') (JNum 10) =
       (Inr ''out'', after_first_run,
        [Call_mkdir [''out''],
         Print_skip_existing [''clips'', ''a'', ''b.mp4''],
         Print_skip_existing [''clips'', ''c.png'']])
   \<and> fst (snd (batch_crop_videos example_env after_first_run (JStr ''clips'') (JStr ''out'')))
       = after_first_run"
proof -
  have 1: "set (prefixes (parts ''out'')) \<subseteq> set (dirs after_first_run)"
    by (simp add: after_first_run_eq path_defs)
  have 2: "targets_in_place after_first_run (parts ''clips'') (parts ''out'')"
    by (simp add: after_first_run_eq targets_in_place_def fs_defs path_defs)
  have 3: "batch_process_media example_env after_first_run (JStr ''clips'') (JStr ''out'')
       (JBool True) (JStr ''static'') (JNum 10) =
       (Inr ''out'', after_first_run,
        [Call_mkdir [''out''],
         Print_skip_existing [''clips'', ''a'', ''b.mp4''],
         Print_skip_existing [''clips'', ''c.png'']])"
    by (simp add: after_first_run_eq example_defs batch_defs fs_defs path_defs Let_def)
  from existing_targets_are_skipped
         [where fs = after_first_run and out = "''out''" and i = "''clips''" and env = example_env] 1 2
  have "fst (snd (batch_crop_videos example_env after_first_run (JStr ''clips'') (JStr ''out'')))
       = after_first_run"
    by blast
  with 1 2 3 show ?thesis by blast
qed

end
